theory Spec2Isabelle
  imports Complex_Main "HOL-Library.Word"
begin

section \<open>NetGuardian: the traffic statistics engine (traffic_analyzer.cpp)\<close>

text \<open>
  The file-scope globals of traffic_analyzer.cpp become one record that every entry point
  takes and returns. A \<^verbatim>\<open>double\<close> is modelled as a \<^typ>\<open>real\<close> (rounding, infinities and
  NaN are outside the model), \<^verbatim>\<open>size_t\<close> as a 64-bit word, a \<^verbatim>\<open>steady_clock::time_point\<close>
  as its tick count in nanoseconds (an \<^typ>\<open>int\<close>). The \<^verbatim>\<open>int\<close> sample counter is a 32-bit
  word read as two's complement (\<open>sint\<close>); its increment wraps around at the largest
  \<^verbatim>\<open>int\<close>, where C++ leaves the overflow undefined. The reading of the clock at the top
  of an entry point is the argument \<open>now\<close>.
\<close>

type_synonym time_point = int
type_synonym size_t = "64 word"

record analyzer_state =
  g_speedWindow :: "real list"
  g_totalBytes :: real
  g_lastPacketTime :: time_point
  g_isFirstPacket :: bool
  g_accumulatedBytes :: real
  g_globalMax :: real
  g_globalAvgKbps :: real
  g_globalMin :: real
  g_sessionStartTime :: time_point
  g_sampleCount :: "32 word"

definition WINDOW_SIZE :: nat where
  "WINDOW_SIZE = 100"

definition MIN_CALC_INTERVAL_US :: int where
  "MIN_CALC_INTERVAL_US = 100000"

text \<open>The values the globals have when the module is loaded (lines 16 to 28).\<close>

definition initial_state :: analyzer_state where
  "initial_state =
     \<lparr> g_speedWindow = [], g_totalBytes = 0, g_lastPacketTime = 0, g_isFirstPacket = True,
       g_accumulatedBytes = 0, g_globalMax = 0, g_globalAvgKbps = 0, g_globalMin = - 1,
       g_sessionStartTime = 0, g_sampleCount = 0 \<rparr>"

text \<open>\<^verbatim>\<open>ResetState\<close> (lines 31 to 44). It assigns nine of the ten globals:
  \<^verbatim>\<open>g_globalAvgKbps\<close> is not among them.\<close>

definition ResetState :: "time_point \<Rightarrow> analyzer_state \<Rightarrow> analyzer_state" where
  "ResetState now st =
     st\<lparr> g_speedWindow := [], g_totalBytes := 0, g_accumulatedBytes := 0,
         g_isFirstPacket := True, g_globalMax := 0, g_globalMin := - 1,
         g_sampleCount := 0, g_lastPacketTime := now, g_sessionStartTime := now \<rparr>"

text \<open>\<^verbatim>\<open>CalculateJitter\<close> (lines 47 to 56): the range-for loop is a left fold.\<close>

definition CalculateJitter :: "real list \<Rightarrow> real \<Rightarrow> real" where
  "CalculateJitter window mean =
     (if length window < 2 then 0
      else sqrt (foldl (\<lambda>sum_sq_diff val. sum_sq_diff + (val - mean) * (val - mean)) 0 window
                 / real (length window)))"

text \<open>\<^verbatim>\<open>std::accumulate(first, last, 0.0)\<close>.\<close>

definition accumulate :: "real list \<Rightarrow> real" where
  "accumulate xs = foldl (+) 0 xs"

text \<open>\<^verbatim>\<open>duration_cast<microseconds>(d).count()\<close> on a nanosecond duration: integer division
  by 1000 that truncates toward zero.\<close>

definition duration_cast_us :: "int \<Rightarrow> int" where
  "duration_cast_us d = (if 0 \<le> d then d div 1000 else - ((- d) div 1000))"

text \<open>The object built by \<^verbatim>\<open>CreateResultObject\<close> (lines 59 to 82), and the three values an
  entry point can hand back to the script side.\<close>

record snapshot =
  instantKbps :: real
  maxKbps :: real
  minKbps :: real
  avgKbps :: real
  jitter :: real
  totalBytes :: real

datatype napi_value = Nullptr | EmptyObject | ResultObject snapshot

definition CreateResultObject ::
  "real \<Rightarrow> real \<Rightarrow> real \<Rightarrow> real \<Rightarrow> real \<Rightarrow> real \<Rightarrow> napi_value" where
  "CreateResultObject instant mx mn avg jit tot =
     ResultObject \<lparr> instantKbps = instant, maxKbps = mx, minKbps = mn, avgKbps = avg,
                    jitter = jit, totalBytes = tot \<rparr>"

text \<open>\<^verbatim>\<open>ProcessTrafficCore\<close> (lines 84 to 171), in three parts: the branch taken under the
  100 ms floor (lines 105 to 123), the computed tick (lines 125 to 170), and the function
  itself.\<close>

definition debounced_result :: "analyzer_state \<Rightarrow> napi_value" where
  "debounced_result st =
     (let lastInstant = (if g_speedWindow st = [] then 0 else last (g_speedWindow st));
          windowSum = accumulate (g_speedWindow st);
          windowAvg = (if g_speedWindow st = [] then 0
                       else windowSum / real (length (g_speedWindow st)));
          lastJitter = CalculateJitter (g_speedWindow st) windowAvg
      in CreateResultObject lastInstant (g_globalMax st)
           (if g_globalMin st < 0 then 0 else g_globalMin st)
           (g_globalAvgKbps st) lastJitter (g_totalBytes st))"

definition computed_tick :: "time_point \<Rightarrow> int \<Rightarrow> analyzer_state \<Rightarrow> napi_value \<times> analyzer_state" where
  "computed_tick now duration_us st =
     (let duration_sec = real_of_int duration_us / 1000000;
          currentBits = g_accumulatedBytes st * 8;
          instant = (currentBits / duration_sec) / 1024;
          st1 = (if instant > g_globalMax st then st\<lparr> g_globalMax := instant \<rparr> else st);
          st2 = st1\<lparr> g_sampleCount := g_sampleCount st1 + 1 \<rparr>;
          st3 = (if sint (g_sampleCount st2) > 5
                 then (if g_globalMin st2 < 0 \<or> instant < g_globalMin st2
                       then st2\<lparr> g_globalMin := instant \<rparr> else st2)
                 else st2);
          total_us = duration_cast_us (now - g_sessionStartTime st3);
          total_sec = real_of_int total_us / 1000000;
          globalAvg = (if total_sec > 0 then (g_totalBytes st3 * 8 / 1024) / total_sec else 0);
          st4 = st3\<lparr> g_globalAvgKbps := globalAvg \<rparr>;
          st5 = (if length (g_speedWindow st4) \<ge> WINDOW_SIZE
                 then st4\<lparr> g_speedWindow := tl (g_speedWindow st4) \<rparr> else st4);
          st6 = st5\<lparr> g_speedWindow := g_speedWindow st5 @ [instant] \<rparr>;
          winSum = accumulate (g_speedWindow st6);
          jit = CalculateJitter (g_speedWindow st6) (winSum / real (length (g_speedWindow st6)));
          st7 = st6\<lparr> g_accumulatedBytes := 0, g_lastPacketTime := now \<rparr>
      in (CreateResultObject instant (g_globalMax st7)
            (if g_globalMin st7 < 0 then 0 else g_globalMin st7)
            globalAvg jit (g_totalBytes st7), st7))"

definition ProcessTrafficCore ::
  "size_t \<Rightarrow> time_point \<Rightarrow> analyzer_state \<Rightarrow> napi_value \<times> analyzer_state" where
  "ProcessTrafficCore byteLength now st0 =
     (let st = st0\<lparr> g_totalBytes := g_totalBytes st0 + real (unat byteLength),
                    g_accumulatedBytes := g_accumulatedBytes st0 + real (unat byteLength) \<rparr>
      in if g_isFirstPacket st
         then (EmptyObject,
               st\<lparr> g_isFirstPacket := False, g_lastPacketTime := now, g_sessionStartTime := now \<rparr>)
         else
           (let duration_us = duration_cast_us (now - g_lastPacketTime st)
            in if duration_us < MIN_CALC_INTERVAL_US then (debounced_result st, st)
               else computed_tick now duration_us st))"

text \<open>A session is a list of events, each the clock reading at arrival and the byte count;
  \<open>run_events\<close> threads the globals through them and \<open>results\<close> collects what each call
  returned.\<close>

fun run_events :: "analyzer_state \<Rightarrow> (time_point \<times> size_t) list \<Rightarrow> analyzer_state" where
  "run_events st [] = st"
| "run_events st ((now, n) # evs) = run_events (snd (ProcessTrafficCore n now st)) evs"

fun results :: "analyzer_state \<Rightarrow> (time_point \<times> size_t) list \<Rightarrow> napi_value list" where
  "results st [] = []"
| "results st ((now, n) # evs) =
     fst (ProcessTrafficCore n now st) # results (snd (ProcessTrafficCore n now st)) evs"


subsection \<open>The script boundary: analyzeLength\<close>

text \<open>
  \<^verbatim>\<open>AnalyzeLength\<close> (lines 205 to 216) reads its argument with \<^verbatim>\<open>napi_get_value_double\<close>,
  which reports a status other than \<^verbatim>\<open>napi_ok\<close> for a value that is not a number, and
  converts the double with \<^verbatim>\<open>static_cast<size_t>\<close>. That conversion discards the
  fractional part; C++ leaves it undefined when the truncated value is not representable
  in \<^verbatim>\<open>size_t\<close>, which the model reports as a fault instead of inventing a value.
\<close>

datatype js_value = JSNumber real | JSNaN | JSPosInfinity | JSNegInfinity | JSOther

datatype fault = UndefinedConversion

definition static_cast_size_t :: "real \<Rightarrow> fault + size_t" where
  "static_cast_size_t len =
     (let truncated = (if 0 \<le> len then \<lfloor>len\<rfloor> else \<lceil>len\<rceil>)
      in if 0 \<le> truncated \<and> truncated < 2 ^ 64 then Inr (word_of_int truncated)
         else Inl UndefinedConversion)"

definition AnalyzeLength ::
  "js_value \<Rightarrow> time_point \<Rightarrow> analyzer_state \<Rightarrow> fault + (napi_value \<times> analyzer_state)" where
  "AnalyzeLength arg now st =
     (case arg of
        JSOther \<Rightarrow> Inr (Nullptr, st)
      | JSNumber len \<Rightarrow>
          (case static_cast_size_t len of
             Inl f \<Rightarrow> Inl f
           | Inr byteLength \<Rightarrow> Inr (ProcessTrafficCore byteLength now st))
      | _ \<Rightarrow> Inl UndefinedConversion)"

section \<open>The chart buffer, the surface and the frame renderer (render_manager.cpp)\<close>

text \<open>
  The members of \<^verbatim>\<open>RenderManager\<close> that the code reads or writes (the trailing underscore
  of the C++ names is dropped). A pointer is an option, \<open>None\<close> being \<^verbatim>\<open>nullptr\<close>; the
  two \<^verbatim>\<open>uint64_t\<close> dimensions are 64-bit words.
\<close>

record render_manager =
  nativeWindow :: "nat option"
  width :: "64 word"
  height :: "64 word"
  speedHistory :: "real list"
  isRendering :: bool

definition MAX_HISTORY_SIZE :: nat where
  "MAX_HISTORY_SIZE = 15"

definition initial_manager :: render_manager where
  "initial_manager =
     \<lparr> nativeWindow = None, width = 0, height = 0, speedHistory = [], isRendering = False \<rparr>"

text \<open>What the platform answers during one frame: the return code, buffer and fence of
  \<^verbatim>\<open>RequestBuffer\<close>, the handle's mapped address and stride, whether \<^verbatim>\<open>mmap\<close> fails,
  and the bitmap's pixel address.\<close>

record frame_env =
  request_ret :: int
  request_buffer :: "nat option"
  request_fenceFd :: int
  handle_virAddr :: "nat option"
  handle_stride :: int
  mmap_failed :: bool
  bitmap_pixels :: "nat option"

text \<open>The calls a frame makes on the platform, in order. \<open>Memcpy dst src n\<close> carries the
  byte offsets into the window buffer and the bitmap and the byte count; \<open>FlushBuffer\<close> is
  the submission to the compositor.\<close>

datatype path_name = path | fillPath | strokePath

datatype effect =
    RequestBuffer
  | LogError
  | CloseFence int
  | Mmap
  | AbortBuffer
  | BitmapBuild "64 word" "64 word"
  | CanvasClear
  | PathMoveTo path_name real real
  | PathLineTo path_name real real
  | PathClose path_name
  | DrawFilled path_name
  | DrawStroked path_name
  | Memcpy int int nat
  | Munmap
  | FlushBuffer

text \<open>\<^verbatim>\<open>GetDataSnapshot\<close> (lines 49 to 52) copies the deque; \<^verbatim>\<open>ClearData\<close> (lines 43 to 46)
  empties it.\<close>

definition GetDataSnapshot :: "render_manager \<Rightarrow> real list" where
  "GetDataSnapshot rm = speedHistory rm"

definition ClearData :: "render_manager \<Rightarrow> render_manager" where
  "ClearData rm = rm\<lparr> speedHistory := [] \<rparr>"

text \<open>\<^verbatim>\<open>*std::max_element(data.begin(), data.end())\<close>, called on a sequence of at least two
  values.\<close>

definition max_element :: "real list \<Rightarrow> real" where
  "max_element data = foldl max (hd data) (tl data)"

text \<open>The drawing block of \<^verbatim>\<open>DrawFrame\<close> (lines 172 to 253). Both loops run over the
  indices of the snapshot; \<open>waveform_x\<close> and \<open>waveform_y\<close> are the two coordinates the
  loop bodies compute (lines 194, 197 and 227, 228).\<close>

definition y_scale :: "real list \<Rightarrow> real" where
  "y_scale data =
     (let maxVal = max_element data;
          maxVal' = (if maxVal < 100 then 100 else maxVal)
      in maxVal' * (12 / 10))"

definition stepX :: "64 word \<Rightarrow> real" where
  "stepX w = real (unat w) / real (MAX_HISTORY_SIZE - 1)"

definition waveform_x :: "64 word \<Rightarrow> nat \<Rightarrow> real" where
  "waveform_x w i = real i * stepX w"

definition waveform_y :: "64 word \<Rightarrow> real list \<Rightarrow> nat \<Rightarrow> real" where
  "waveform_y h data i =
     real (unat h) - (data ! i / y_scale data) * real (unat h)"

definition draw_waveform :: "64 word \<Rightarrow> 64 word \<Rightarrow> real list \<Rightarrow> effect list" where
  "draw_waveform w h data =
     (let lastX = (if data = [] then 0 else waveform_x w (length data - 1))
      in [PathMoveTo path 0 (real (unat h)), PathMoveTo fillPath 0 (real (unat h))]
         @ map (\<lambda>i. PathLineTo fillPath (waveform_x w i) (waveform_y h data i)) [0..<length data]
         @ [PathLineTo fillPath lastX (real (unat h)), PathLineTo fillPath 0 (real (unat h)),
            PathClose fillPath, DrawFilled fillPath]
         @ map (\<lambda>i. if i = 0 then PathMoveTo strokePath (waveform_x w i) (waveform_y h data i)
                     else PathLineTo strokePath (waveform_x w i) (waveform_y h data i))
             [0..<length data]
         @ [DrawStroked strokePath])"

text \<open>The copy into the window buffer (lines 256 to 274). \<^verbatim>\<open>bitmapStride\<close> is the 64-bit
  product narrowed to \<^verbatim>\<open>int32_t\<close>. Where the copy is reached \<^verbatim>\<open>windowPixels\<close> is the
  handle's address or the address \<^verbatim>\<open>mmap\<close> returned, so of the two pointer tests only the
  one on \<^verbatim>\<open>bitmapPixels\<close> can fail.\<close>

definition copy_pixels :: "frame_env \<Rightarrow> 64 word \<Rightarrow> 64 word \<Rightarrow> effect list" where
  "copy_pixels env w h =
     (let bufferStride = handle_stride env;
          bitmapStride = sint (ucast (w * 4) :: 32 word)
      in if bitmap_pixels env \<noteq> None
         then (if bufferStride = bitmapStride then [Memcpy 0 0 (unat (w * h * 4))]
               else map (\<lambda>i. Memcpy (int i * bufferStride) (int i * bitmapStride) (unat (w * 4)))
                      [0..<unat h])
         else [])"

text \<open>\<^verbatim>\<open>DrawFrame\<close> (lines 117 to 290). The only test made before a buffer is requested is
  the one on \<^verbatim>\<open>nativeWindow_\<close>; every \<^verbatim>\<open>return\<close> is preceded by
  \<^verbatim>\<open>isRendering_ = false\<close>.\<close>

definition DrawFrame :: "frame_env \<Rightarrow> render_manager \<Rightarrow> effect list \<times> render_manager" where
  "DrawFrame env rm =
     (if nativeWindow rm = None then ([], rm\<lparr> isRendering := False \<rparr>)
      else if request_ret env \<noteq> 0 \<or> request_buffer env = None
      then ([RequestBuffer, LogError], rm\<lparr> isRendering := False \<rparr>)
      else
        (let acquired = RequestBuffer
               # (if request_fenceFd env > 0 then [CloseFence (request_fenceFd env)] else [])
         in if handle_virAddr env = None \<and> mmap_failed env
            then (acquired @ [Mmap, LogError, AbortBuffer], rm\<lparr> isRendering := False \<rparr>)
            else
              (let needsUnmap = (handle_virAddr env = None);
                   data = GetDataSnapshot rm
               in (acquired
                   @ (if needsUnmap then [Mmap] else [])
                   @ [BitmapBuild (width rm) (height rm), CanvasClear]
                   @ (if length data > 1 then draw_waveform (width rm) (height rm) data else [])
                   @ copy_pixels env (width rm) (height rm)
                   @ (if needsUnmap then [Munmap] else [])
                   @ [FlushBuffer],
                   rm\<lparr> isRendering := False \<rparr>))))"

text \<open>\<^verbatim>\<open>PushData\<close> (lines 26 to 41): the push under the mutex and the
  \<^verbatim>\<open>compare_exchange_strong\<close> are \<open>push_and_test\<close>, which also says whether the exchange
  succeeded; the frame follows when it did.\<close>

definition push_and_test :: "real \<Rightarrow> render_manager \<Rightarrow> bool \<times> render_manager" where
  "push_and_test speedKbps rm =
     (let rm1 = rm\<lparr> speedHistory := speedHistory rm @ [speedKbps] \<rparr>;
          rm2 = (if length (speedHistory rm1) > MAX_HISTORY_SIZE
                 then rm1\<lparr> speedHistory := tl (speedHistory rm1) \<rparr> else rm1)
      in if isRendering rm2 then (False, rm2) else (True, rm2\<lparr> isRendering := True \<rparr>))"

definition PushData :: "frame_env \<Rightarrow> real \<Rightarrow> render_manager \<Rightarrow> effect list \<times> render_manager" where
  "PushData env speedKbps rm =
     (case push_and_test speedKbps rm of
        (True, rm') \<Rightarrow> DrawFrame env rm'
      | (False, rm') \<Rightarrow> ([], rm'))"

text \<open>The surface callbacks. \<^verbatim>\<open>OnSurfaceCreated\<close> (lines 55 to 76) stores the window and,
  when the size query succeeds, the size; \<^verbatim>\<open>OnSurfaceChanged\<close> (lines 78 to 90) stores the
  size the query wrote and calls \<^verbatim>\<open>DrawFrame\<close> directly; \<^verbatim>\<open>OnSurfaceDestroyed\<close>
  (lines 92 to 95) clears the window.\<close>

definition OnSurfaceCreated ::
  "nat option \<Rightarrow> bool \<Rightarrow> 64 word \<Rightarrow> 64 word \<Rightarrow> render_manager \<Rightarrow> render_manager" where
  "OnSurfaceCreated window size_ok w h rm =
     (let rm1 = rm\<lparr> nativeWindow := window \<rparr>
      in if size_ok then rm1\<lparr> width := w, height := h \<rparr> else rm1)"

definition set_size :: "64 word \<Rightarrow> 64 word \<Rightarrow> render_manager \<Rightarrow> render_manager" where
  "set_size w h rm = rm\<lparr> width := w, height := h \<rparr>"

definition OnSurfaceChanged ::
  "frame_env \<Rightarrow> 64 word \<Rightarrow> 64 word \<Rightarrow> render_manager \<Rightarrow> effect list \<times> render_manager" where
  "OnSurfaceChanged env w h rm = DrawFrame env (set_size w h rm)"

definition OnSurfaceDestroyed :: "render_manager \<Rightarrow> render_manager" where
  "OnSurfaceDestroyed rm = rm\<lparr> nativeWindow := None \<rparr>"


text \<open>The operations of the manager run one after another, each to completion.\<close>

datatype manager_op =
    Op_PushData frame_env real
  | Op_ClearData
  | Op_OnSurfaceCreated "nat option" bool "64 word" "64 word"
  | Op_OnSurfaceChanged frame_env "64 word" "64 word"
  | Op_OnSurfaceDestroyed

fun apply_op :: "render_manager \<Rightarrow> manager_op \<Rightarrow> render_manager" where
  "apply_op rm (Op_PushData env v) = snd (PushData env v rm)"
| "apply_op rm Op_ClearData = ClearData rm"
| "apply_op rm (Op_OnSurfaceCreated window ok w h) = OnSurfaceCreated window ok w h rm"
| "apply_op rm (Op_OnSurfaceChanged env w h) = snd (OnSurfaceChanged env w h rm)"
| "apply_op rm Op_OnSurfaceDestroyed = OnSurfaceDestroyed rm"

definition run_ops :: "render_manager \<Rightarrow> manager_op list \<Rightarrow> render_manager" where
  "run_ops rm ops = foldl apply_op rm ops"

definition push_all :: "render_manager \<Rightarrow> (frame_env \<times> real) list \<Rightarrow> render_manager" where
  "push_all rm pushes = foldl (\<lambda>m (env, v). snd (PushData env v m)) rm pushes"

subsection \<open>Triggers that arrive while a frame is being drawn\<close>

text \<open>
  \<^verbatim>\<open>PushData\<close> and \<^verbatim>\<open>OnSurfaceChanged\<close> can be called from different threads, so a trigger
  can arrive between the moment a call has entered \<^verbatim>\<open>DrawFrame\<close> and the moment that
  frame returns. The interleaving is modelled at that grain: a call of \<^verbatim>\<open>PushData\<close>
  performs \<open>push_and_test\<close> and, when the exchange succeeded, has a frame in flight; a
  call of \<^verbatim>\<open>OnSurfaceChanged\<close> stores the size and has a frame in flight (line 89 calls
  \<^verbatim>\<open>DrawFrame\<close> without the exchange); \<open>Return_DrawFrame\<close> lets one frame in flight run
  its body and return.
\<close>

record system =
  manager :: render_manager
  frames_in_flight :: nat
  emitted :: "effect list"

datatype action =
    Call_PushData real
  | Call_OnSurfaceChanged "64 word" "64 word"
  | Return_DrawFrame frame_env

fun step :: "system \<Rightarrow> action \<Rightarrow> system" where
  "step s (Call_PushData v) =
     (case push_and_test v (manager s) of
        (True, rm') \<Rightarrow> s\<lparr> manager := rm', frames_in_flight := frames_in_flight s + 1 \<rparr>
      | (False, rm') \<Rightarrow> s\<lparr> manager := rm' \<rparr>)"
| "step s (Call_OnSurfaceChanged w h) =
     s\<lparr> manager := set_size w h (manager s), frames_in_flight := frames_in_flight s + 1 \<rparr>"
| "step s (Return_DrawFrame env) =
     (if frames_in_flight s = 0 then s
      else (case DrawFrame env (manager s) of
              (es, rm') \<Rightarrow> s\<lparr> manager := rm', frames_in_flight := frames_in_flight s - 1,
                               emitted := emitted s @ es \<rparr>))"

definition run_actions :: "system \<Rightarrow> action list \<Rightarrow> system" where
  "run_actions s acts = foldl step s acts"

section \<open>Notions of the specification\<close>

text \<open>The population standard deviation of a sequence around its own mean, as the
  specification words the jitter.\<close>

definition mean :: "real list \<Rightarrow> real" where
  "mean xs = sum_list xs / real (length xs)"

definition population_stddev :: "real list \<Rightarrow> real" where
  "population_stddev xs = sqrt ((\<Sum>x\<leftarrow>xs. (x - mean xs)\<^sup>2) / real (length xs))"

text \<open>A sliding window of capacity 100 that evicts its oldest value on overflow.\<close>

definition window_push :: "real list \<Rightarrow> real \<Rightarrow> real list" where
  "window_push w x = (if length w \<ge> 100 then tl w else w) @ [x]"

text \<open>A call computes a tick when it is not the first of its session and at least 100 ms
  have passed since \<^verbatim>\<open>g_lastPacketTime\<close>; \<open>ticks_computed\<close> counts them over a session.\<close>

definition computes_tick :: "time_point \<Rightarrow> analyzer_state \<Rightarrow> bool" where
  "computes_tick now st =
     (\<not> g_isFirstPacket st \<and> MIN_CALC_INTERVAL_US \<le> duration_cast_us (now - g_lastPacketTime st))"

fun ticks_computed :: "analyzer_state \<Rightarrow> (time_point \<times> size_t) list \<Rightarrow> nat" where
  "ticks_computed st [] = 0"
| "ticks_computed st ((now, n) # evs) =
     (if computes_tick now st then 1 else 0)
     + ticks_computed (snd (ProcessTrafficCore n now st)) evs"

section \<open>Properties\<close>

lemmas engine_defs = ProcessTrafficCore_def computed_tick_def debounced_result_def
  CreateResultObject_def CalculateJitter_def accumulate_def duration_cast_us_def
  MIN_CALC_INTERVAL_US_def WINDOW_SIZE_def Let_def


subsection \<open>Events under the 100 ms floor\<close>

lemma debounced_keeps_average:
  assumes "\<not> g_isFirstPacket st"
    and "duration_cast_us (now - g_lastPacketTime st) < MIN_CALC_INTERVAL_US"
    and "ProcessTrafficCore n now st = (ResultObject snap, st')"
  shows "avgKbps snap = g_globalAvgKbps st" and "g_globalAvgKbps st' = g_globalAvgKbps st"
  using assms
  by (auto simp: ProcessTrafficCore_def debounced_result_def CreateResultObject_def Let_def)

text \<open>
  C1. An event that arrives less than 100 ms after the last computed tick should repeat
  the instantaneous rate and the jitter of that tick, report the running total of bytes,
  and report an average refreshed with the session time at the new arrival. The code
  returns the stored \<^verbatim>\<open>g_globalAvgKbps\<close> in that branch, which only a computed tick
  assigns. In the session below 1024 bytes arrive at 0 s, at 1 s and at 1.05 s: the third
  call repeats the rate 16 and the jitter 0 and reports 3072 bytes, and its average is
  still the 16 of the tick at 1 s, where 3072 bytes over 1.05 s are not 16.
\<close>

theorem debounced_average_not_refreshed:
  "results initial_state [(0, 1024), (1000000000, 1024), (1050000000, 1024)] =
     [EmptyObject,
      ResultObject \<lparr> instantKbps = 16, maxKbps = 16, minKbps = 0, avgKbps = 16,
                     jitter = 0, totalBytes = 2048 \<rparr>,
      ResultObject \<lparr> instantKbps = 16, maxKbps = 16, minKbps = 0, avgKbps = 16,
                     jitter = 0, totalBytes = 3072 \<rparr>]
   \<and> (3072 * 8 / 1024) / (real_of_int (duration_cast_us (1050000000 - 0)) / 1000000) \<noteq> (16 :: real)"
  by (simp add: engine_defs initial_state_def)

subsection \<open>Reset\<close>

text \<open>
  C8. A reset followed by a sequence of events should return what a fresh session returns
  on the same events. \<^verbatim>\<open>ResetState\<close> leaves \<^verbatim>\<open>g_globalAvgKbps\<close> as it was, and the branch
  under the 100 ms floor reports it: after a session whose last tick had the average 16,
  a reset at 2 s, a first event at 3 s and a second one 50 ms later, the second call
  reports the average 16, where the fresh session reports 0.
\<close>

theorem reset_keeps_average:
  "results (ResetState 2000000000 (run_events initial_state [(0, 1024), (1000000000, 1024)]))
     [(3000000000, 0), (3050000000, 0)] =
     [EmptyObject,
      ResultObject \<lparr> instantKbps = 0, maxKbps = 0, minKbps = 0, avgKbps = 16,
                     jitter = 0, totalBytes = 0 \<rparr>]
   \<and> results initial_state [(3000000000, 0), (3050000000, 0)] =
     [EmptyObject,
      ResultObject \<lparr> instantKbps = 0, maxKbps = 0, minKbps = 0, avgKbps = 0,
                     jitter = 0, totalBytes = 0 \<rparr>]"
  by (simp add: engine_defs initial_state_def ResetState_def)

subsection \<open>The boundary\<close>

text \<open>
  C3, as the code has it. A value that is not a number is turned away at the boundary:
  \<^verbatim>\<open>nullptr\<close> is returned and no global is touched. A negative number is not turned
  away: one strictly between -1 and 0 is truncated to 0 and processed as an event of zero
  bytes.
\<close>

theorem analyzeLength_boundary:
  "AnalyzeLength JSOther now st = Inr (Nullptr, st)
   \<and> (- 1 < x \<and> x < 0 \<longrightarrow> AnalyzeLength (JSNumber x) now st = Inr (ProcessTrafficCore 0 now st))"
proof -
  have "\<lceil>x\<rceil> = 0" if "- 1 < x" "x < 0"
    using that by (simp add: ceiling_eq_iff)
  then show ?thesis
    by (auto simp: AnalyzeLength_def static_cast_size_t_def)
qed

theorem analyzeLength_boundary_witness:
  "AnalyzeLength JSOther 1000 initial_state = Inr (Nullptr, initial_state)
   \<and> - 1 < (- 1 / 2 :: real) \<and> (- 1 / 2 :: real) < 0
   \<and> AnalyzeLength (JSNumber (- 1 / 2)) 1000 initial_state
       = Inr (ProcessTrafficCore 0 1000 initial_state)"
  using analyzeLength_boundary [of 1000 initial_state "- 1 / 2"] by simp

text \<open>The negative length -0.5, given to a session that has seen no event, is accepted:
  the call returns the empty object of a first packet and the globals have changed.\<close>

theorem negative_length_counterexample:
  "AnalyzeLength (JSNumber (- 1 / 2)) 1000 initial_state =
     Inr (EmptyObject, initial_state\<lparr> g_isFirstPacket := False, g_lastPacketTime := 1000,
                                      g_sessionStartTime := 1000 \<rparr>)
   \<and> initial_state\<lparr> g_isFirstPacket := False, g_lastPacketTime := 1000,
                    g_sessionStartTime := 1000 \<rparr> \<noteq> initial_state"
proof -
  have c: "\<lceil>- 1 / 2 :: real\<rceil> = 0" by (simp add: ceiling_eq_iff)
  show ?thesis
    using c by (simp add: AnalyzeLength_def static_cast_size_t_def ProcessTrafficCore_def
        initial_state_def)
qed

text \<open>
  C10, as the code has it. For every number \<open>x\<close> with \<open>0 \<le> x < 2^64\<close> the conversion
  yields the floor of \<open>x\<close>, and that is the byte count the engine processes: a fractional
  count is neither rounded to nearest nor turned away.
\<close>

theorem analyzeLength_truncates:
  assumes "0 \<le> x" and "x < 2 ^ 64"
  shows "static_cast_size_t x = Inr (word_of_int \<lfloor>x\<rfloor>)
       \<and> unat (word_of_int \<lfloor>x\<rfloor> :: size_t) = nat \<lfloor>x\<rfloor>
       \<and> AnalyzeLength (JSNumber x) now st = Inr (ProcessTrafficCore (word_of_int \<lfloor>x\<rfloor>) now st)"
proof -
  have lo: "0 \<le> \<lfloor>x\<rfloor>" using assms(1) by simp
  have hi: "\<lfloor>x\<rfloor> < 2 ^ 64" using assms(2) by (simp add: floor_less_iff)
  have conv: "static_cast_size_t x = Inr (word_of_int \<lfloor>x\<rfloor>)"
    using lo hi assms(1) by (simp add: static_cast_size_t_def)
  have "uint (word_of_int \<lfloor>x\<rfloor> :: size_t) = \<lfloor>x\<rfloor>"
    using lo hi by (simp add: uint_word_of_int take_bit_int_eq_self)
  then have "unat (word_of_int \<lfloor>x\<rfloor> :: size_t) = nat \<lfloor>x\<rfloor>"
    by (simp add: unat_eq_nat_uint)
  with conv show ?thesis by (simp add: AnalyzeLength_def)
qed

theorem analyzeLength_truncates_witness:
  "(0 :: real) \<le> 2047 / 2 \<and> (2047 / 2 :: real) < 2 ^ 64
   \<and> static_cast_size_t (2047 / 2) = Inr 1023
   \<and> AnalyzeLength (JSNumber (2047 / 2)) 0 initial_state = Inr (ProcessTrafficCore 1023 0 initial_state)"
proof -
  have f: "\<lfloor>2047 / 2 :: real\<rfloor> = 1023" by (simp add: floor_eq_iff)
  show ?thesis using analyzeLength_truncates [of "2047 / 2" 0 initial_state] f by simp
qed

text \<open>The finite, non-negative number \<open>2^64\<close> has a floor that no \<^verbatim>\<open>size_t\<close> holds: the
  conversion is undefined and the engine processes no byte count at all.\<close>

theorem huge_length_counterexample:
  "AnalyzeLength (JSNumber (2 ^ 64)) 0 initial_state = Inl UndefinedConversion"
  by (simp add: AnalyzeLength_def static_cast_size_t_def)


subsection \<open>The chart buffer\<close>

lemma DrawFrame_speedHistory: "speedHistory (snd (DrawFrame env rm)) = speedHistory rm"
  by (simp add: DrawFrame_def Let_def)

lemma DrawFrame_clears_guard: "isRendering (snd (DrawFrame env rm)) = False"
  by (simp add: DrawFrame_def Let_def)

lemma DrawFrame_nativeWindow: "nativeWindow (snd (DrawFrame env rm)) = nativeWindow rm"
  by (simp add: DrawFrame_def Let_def)

lemma PushData_speedHistory:
  "speedHistory (snd (PushData env v rm)) =
     (if length (speedHistory rm) + 1 > MAX_HISTORY_SIZE then tl (speedHistory rm @ [v])
      else speedHistory rm @ [v])"
  by (simp add: PushData_def push_and_test_def Let_def DrawFrame_speedHistory split: prod.splits)

lemma push_all_Cons:
  "push_all rm ((env, v) # ps) = push_all (snd (PushData env v rm)) ps"
  by (simp add: push_all_def)

lemma push_all_history:
  "length (speedHistory rm) \<le> MAX_HISTORY_SIZE \<Longrightarrow>
   speedHistory (push_all rm ps) =
     drop (length (speedHistory rm @ map snd ps) - MAX_HISTORY_SIZE) (speedHistory rm @ map snd ps)"
proof (induction ps arbitrary: rm)
  case Nil
  then show ?case by (simp add: push_all_def)
next
  case (Cons p ps)
  obtain env v where p: "p = (env, v)" by (cases p)
  let ?h = "speedHistory rm"
  let ?rm' = "snd (PushData env v rm)"
  show ?case
  proof (cases "length ?h + 1 > MAX_HISTORY_SIZE")
    case True
    with Cons.prems have len: "length ?h = MAX_HISTORY_SIZE" by simp
    then obtain a hs where h: "?h = a # hs"
      by (cases ?h) (simp_all add: MAX_HISTORY_SIZE_def)
    have h': "speedHistory ?rm' = hs @ [v]"
      using True by (simp add: PushData_speedHistory h)
    have "length (speedHistory ?rm') \<le> MAX_HISTORY_SIZE"
      using len by (simp add: h' h)
    from Cons.IH [OF this] have ih:
      "speedHistory (push_all ?rm' ps) =
         drop (length (speedHistory ?rm' @ map snd ps) - MAX_HISTORY_SIZE)
              (speedHistory ?rm' @ map snd ps)" .
    define L where "L = hs @ v # map snd ps"
    have L: "speedHistory ?rm' @ map snd ps = L" "?h @ map snd (p # ps) = a # L"
      by (simp_all add: L_def h' h p)
    have "MAX_HISTORY_SIZE \<le> length L"
      using len by (simp add: L_def h)
    then have "length (a # L) - MAX_HISTORY_SIZE = Suc (length L - MAX_HISTORY_SIZE)"
      by simp
    then have "drop (length (a # L) - MAX_HISTORY_SIZE) (a # L) = drop (length L - MAX_HISTORY_SIZE) L"
      by (simp only: drop_Suc_Cons)
    with ih show ?thesis
      unfolding L by (simp only: p push_all_Cons)
  next
    case False
    then have h': "speedHistory ?rm' = ?h @ [v]"
      by (simp add: PushData_speedHistory)
    have "length (speedHistory ?rm') \<le> MAX_HISTORY_SIZE"
      using False by (simp add: h')
    from Cons.IH [OF this] show ?thesis
      by (simp add: p push_all_Cons h')
  qed
qed

lemma apply_op_bounded:
  "length (speedHistory rm) \<le> MAX_HISTORY_SIZE \<Longrightarrow>
   length (speedHistory (apply_op rm op)) \<le> MAX_HISTORY_SIZE"
  by (cases op)
     (auto simp: PushData_speedHistory ClearData_def OnSurfaceCreated_def OnSurfaceChanged_def
        OnSurfaceDestroyed_def set_size_def DrawFrame_speedHistory Let_def)

lemma run_ops_bounded:
  "length (speedHistory rm) \<le> MAX_HISTORY_SIZE \<Longrightarrow>
   length (speedHistory (run_ops rm ops)) \<le> MAX_HISTORY_SIZE"
  unfolding run_ops_def
  by (induction ops arbitrary: rm) (simp_all add: apply_op_bounded)

text \<open>
  C5. The chart buffer never holds more than its capacity of 15 values, whatever
  operations the manager has run since it was created; a push appends and drops the oldest
  value when the length would pass 15; after any number of pushes the snapshot is the last
  15 values pushed (all of them when there are fewer), in arrival order; pushing 1 to 20
  leaves 6 to 20.
\<close>

theorem chart_buffer_bounded:
  "length (GetDataSnapshot (run_ops initial_manager ops)) \<le> MAX_HISTORY_SIZE
   \<and> MAX_HISTORY_SIZE = 15
   \<and> GetDataSnapshot (snd (PushData env v rm)) =
       (if length (speedHistory rm) + 1 > MAX_HISTORY_SIZE then tl (speedHistory rm @ [v])
        else speedHistory rm @ [v])
   \<and> GetDataSnapshot (push_all initial_manager pushes) =
       drop (length pushes - MAX_HISTORY_SIZE) (map snd pushes)
   \<and> GetDataSnapshot (push_all initial_manager (map (\<lambda>k. (env, real k)) [1..<21])) =
       map real [6..<21]"
proof -
  have init: "length (speedHistory initial_manager) \<le> MAX_HISTORY_SIZE"
    by (simp add: initial_manager_def)
  have a: "length (GetDataSnapshot (run_ops initial_manager ops)) \<le> MAX_HISTORY_SIZE"
    unfolding GetDataSnapshot_def by (rule run_ops_bounded [OF init])
  have b: "GetDataSnapshot (push_all initial_manager ps) =
       drop (length ps - MAX_HISTORY_SIZE) (map snd ps)" for ps
    unfolding GetDataSnapshot_def using push_all_history [OF init, of ps]
    by (simp add: initial_manager_def)
  have "map snd (map (\<lambda>k. (env, real k)) [1..<21]) = map real [1..<21]"
    by (simp add: comp_def)
  then have c: "GetDataSnapshot (push_all initial_manager (map (\<lambda>k. (env, real k)) [1..<21])) =
       map real [6..<21]"
    by (simp add: b MAX_HISTORY_SIZE_def drop_map del: upt_Suc)
  show ?thesis
    using a b c by (simp add: GetDataSnapshot_def PushData_speedHistory MAX_HISTORY_SIZE_def)
qed

subsection \<open>Frames without a surface\<close>

lemma DrawFrame_submits:
  assumes "nativeWindow rm \<noteq> None" and "request_ret env = 0" and "request_buffer env \<noteq> None"
    and "\<not> (handle_virAddr env = None \<and> mmap_failed env)"
  shows "fst (DrawFrame env rm) \<noteq> []" and "last (fst (DrawFrame env rm)) = FlushBuffer"
    and "hd (fst (DrawFrame env rm)) = RequestBuffer"
  using assms by (auto simp: DrawFrame_def Let_def)

text \<open>
  C4, as the code has it. Without a surface handle \<^verbatim>\<open>DrawFrame\<close> does nothing but clear
  the guard, and the guard is clear after every call. Once the surface has been destroyed,
  a push and a resize make no call on the platform. The width and the height are not
  tested: with a handle, a buffer that is acquired and mapped is drawn into and submitted
  whatever the size, and the guard is cleared.
\<close>

theorem DrawFrame_without_surface:
  "(nativeWindow rm = None \<longrightarrow> DrawFrame env rm = ([], rm\<lparr> isRendering := False \<rparr>))
   \<and> isRendering (snd (DrawFrame env rm)) = False
   \<and> fst (PushData env v (OnSurfaceDestroyed rm)) = []
   \<and> OnSurfaceChanged env w h (OnSurfaceDestroyed rm) =
       ([], rm\<lparr> nativeWindow := None, width := w, height := h, isRendering := False \<rparr>)
   \<and> (nativeWindow rm \<noteq> None \<and> request_ret env = 0 \<and> request_buffer env \<noteq> None
        \<and> \<not> (handle_virAddr env = None \<and> mmap_failed env)
       \<longrightarrow> hd (fst (DrawFrame env rm)) = RequestBuffer
           \<and> last (fst (DrawFrame env rm)) = FlushBuffer
           \<and> isRendering (snd (DrawFrame env rm)) = False)"
proof -
  have a: "nativeWindow rm = None \<longrightarrow> DrawFrame env rm = ([], rm\<lparr> isRendering := False \<rparr>)"
    by (simp add: DrawFrame_def)
  have b: "isRendering (snd (DrawFrame env rm)) = False"
    by (rule DrawFrame_clears_guard)
  have c: "fst (PushData env v (OnSurfaceDestroyed rm)) = []"
    by (simp add: PushData_def push_and_test_def OnSurfaceDestroyed_def DrawFrame_def Let_def)
  have d: "OnSurfaceChanged env w h (OnSurfaceDestroyed rm) =
       ([], rm\<lparr> nativeWindow := None, width := w, height := h, isRendering := False \<rparr>)"
    by (simp add: OnSurfaceChanged_def set_size_def OnSurfaceDestroyed_def DrawFrame_def)
  show ?thesis
    using a b c d DrawFrame_submits [of rm env] by blast
qed

text \<open>The manager as created has no surface; given a handle, and with its width and height
  still 0, its frame ends with the submission.\<close>

theorem DrawFrame_without_surface_witness:
  "nativeWindow initial_manager = None
   \<and> DrawFrame
        \<lparr> request_ret = 0, request_buffer = Some 1, request_fenceFd = - 1,
          handle_virAddr = Some 1, handle_stride = 0, mmap_failed = False,
          bitmap_pixels = Some 1 \<rparr>
        initial_manager = ([], initial_manager)
   \<and> nativeWindow (initial_manager\<lparr> nativeWindow := Some 1 \<rparr>) \<noteq> None
   \<and> width (initial_manager\<lparr> nativeWindow := Some 1 \<rparr>) = 0
   \<and> height (initial_manager\<lparr> nativeWindow := Some 1 \<rparr>) = 0
   \<and> last (fst (DrawFrame
        \<lparr> request_ret = 0, request_buffer = Some 1, request_fenceFd = - 1,
          handle_virAddr = Some 1, handle_stride = 0, mmap_failed = False,
          bitmap_pixels = Some 1 \<rparr>
        (initial_manager\<lparr> nativeWindow := Some 1 \<rparr>))) = FlushBuffer"
  using DrawFrame_without_surface [of initial_manager
      "\<lparr> request_ret = 0, request_buffer = Some 1, request_fenceFd = - 1,
         handle_virAddr = Some 1, handle_stride = 0, mmap_failed = False,
         bitmap_pixels = Some 1 \<rparr>"]
    DrawFrame_without_surface [of "initial_manager\<lparr> nativeWindow := Some 1 \<rparr>"
      "\<lparr> request_ret = 0, request_buffer = Some 1, request_fenceFd = - 1,
         handle_virAddr = Some 1, handle_stride = 0, mmap_failed = False,
         bitmap_pixels = Some 1 \<rparr>"]
  by (simp add: initial_manager_def)

text \<open>With a handle and a size of 0 by 0 the frame requests a buffer, builds and clears the
  bitmap, copies and submits.\<close>

theorem zero_size_frame_counterexample:
  "DrawFrame
     \<lparr> request_ret = 0, request_buffer = Some 1, request_fenceFd = - 1,
       handle_virAddr = Some 1, handle_stride = 0, mmap_failed = False,
       bitmap_pixels = Some 1 \<rparr>
     \<lparr> nativeWindow = Some 1, width = 0, height = 0, speedHistory = [], isRendering = True \<rparr>
   = ([RequestBuffer, BitmapBuild 0 0, CanvasClear, Memcpy 0 0 0, FlushBuffer],
      \<lparr> nativeWindow = Some 1, width = 0, height = 0, speedHistory = [], isRendering = False \<rparr>)"
  by (simp add: DrawFrame_def GetDataSnapshot_def copy_pixels_def Let_def)

subsection \<open>A resize while a frame is in flight\<close>

text \<open>
  C2. At most one frame should be in flight, whichever trigger arrives while one is being
  drawn. A second push during a frame is turned away by the exchange and leaves one frame
  in flight. \<^verbatim>\<open>OnSurfaceChanged\<close> does not make the exchange: a resize that arrives while
  the frame of a push is in flight puts a second frame in flight, and both run to the
  submission.
\<close>

theorem resize_during_frame:
  "frames_in_flight (run_actions
      \<lparr> manager = \<lparr> nativeWindow = Some 1, width = 100, height = 100, speedHistory = [],
                    isRendering = False \<rparr>,
        frames_in_flight = 0, emitted = [] \<rparr>
      [Call_PushData 1, Call_PushData 2]) = 1
   \<and> frames_in_flight (run_actions
      \<lparr> manager = \<lparr> nativeWindow = Some 1, width = 100, height = 100, speedHistory = [],
                    isRendering = False \<rparr>,
        frames_in_flight = 0, emitted = [] \<rparr>
      [Call_PushData 1, Call_OnSurfaceChanged 200 100]) = 2
   \<and> emitted (run_actions
      \<lparr> manager = \<lparr> nativeWindow = Some 1, width = 100, height = 100, speedHistory = [],
                    isRendering = False \<rparr>,
        frames_in_flight = 0, emitted = [] \<rparr>
      [Call_PushData 1, Call_OnSurfaceChanged 200 100,
       Return_DrawFrame \<lparr> request_ret = 0, request_buffer = Some 1, request_fenceFd = - 1,
         handle_virAddr = Some 1, handle_stride = 800, mmap_failed = False,
         bitmap_pixels = Some 1 \<rparr>,
       Return_DrawFrame \<lparr> request_ret = 0, request_buffer = Some 2, request_fenceFd = - 1,
         handle_virAddr = Some 2, handle_stride = 800, mmap_failed = False,
         bitmap_pixels = Some 2 \<rparr>])
     = [RequestBuffer, BitmapBuild 200 100, CanvasClear, Memcpy 0 0 80000, FlushBuffer,
        RequestBuffer, BitmapBuild 200 100, CanvasClear, Memcpy 0 0 80000, FlushBuffer]"
  by (simp add: run_actions_def push_and_test_def set_size_def MAX_HISTORY_SIZE_def
      DrawFrame_def GetDataSnapshot_def copy_pixels_def Let_def)

subsection \<open>The geometry of the waveform\<close>









subsection \<open>The computed tick\<close>

lemma accumulate_sum_list: "accumulate xs = sum_list xs"
proof -
  have "foldl (+) a xs = a + sum_list xs" for a :: real
    by (induction xs arbitrary: a) (simp_all add: add.assoc)
  then show ?thesis by (simp add: accumulate_def)
qed

lemma foldl_sq_diff:
  "foldl (\<lambda>s v. s + (v - m) * (v - m)) a xs = a + (\<Sum>x\<leftarrow>xs. (x - m)\<^sup>2)" for a m :: real
  by (induction xs arbitrary: a) (simp_all add: add.assoc power2_eq_square)

lemma CalculateJitter_stddev:
  assumes "w \<noteq> []"
  shows "CalculateJitter w (accumulate w / real (length w)) = population_stddev w"
proof (cases "length w < 2")
  case True
  with assms obtain x where "w = [x]"
    by (cases w) (auto simp: less_Suc_eq)
  then show ?thesis
    by (simp add: CalculateJitter_def population_stddev_def mean_def accumulate_sum_list)
next
  case False
  then show ?thesis
    by (simp add: CalculateJitter_def population_stddev_def mean_def accumulate_sum_list
        foldl_sq_diff)
qed


lemma computed_tick_eq:
  assumes "(g_accumulatedBytes st * 8 / (real_of_int d / 1000000)) / 1024 = instant"
  shows "computed_tick now d st =
    (let st' = st\<lparr> g_globalMax := (if instant > g_globalMax st then instant else g_globalMax st),
                   g_sampleCount := g_sampleCount st + 1,
                   g_globalMin :=
                     (if sint (g_sampleCount st + 1) > 5
                         \<and> (g_globalMin st < 0 \<or> instant < g_globalMin st)
                      then instant else g_globalMin st),
                   g_globalAvgKbps :=
                     (if real_of_int (duration_cast_us (now - g_sessionStartTime st)) / 1000000 > 0
                      then (g_totalBytes st * 8 / 1024)
                           / (real_of_int (duration_cast_us (now - g_sessionStartTime st)) / 1000000)
                      else 0),
                   g_speedWindow :=
                     (if length (g_speedWindow st) \<ge> WINDOW_SIZE then tl (g_speedWindow st)
                      else g_speedWindow st) @ [instant],
                   g_accumulatedBytes := 0, g_lastPacketTime := now \<rparr>
     in (CreateResultObject instant (g_globalMax st')
           (if g_globalMin st' < 0 then 0 else g_globalMin st')
           (g_globalAvgKbps st')
           (CalculateJitter (g_speedWindow st')
              (accumulate (g_speedWindow st') / real (length (g_speedWindow st'))))
           (g_totalBytes st), st'))"
  unfolding computed_tick_def Let_def assms(1)
  by (simp cong: if_cong)

text \<open>
  C6. For an event that is not the first of its session and arrives with at least 100 ms
  elapsed since \<^verbatim>\<open>g_lastPacketTime\<close>, the snapshot has
  \<open>instantKbps = (pendingBytes * 8 / 1024) / elapsedSeconds\<close>, the pending bytes being
  those accumulated since the last tick with the new event's; the average is
  \<open>(totalBytes * 8 / 1024) / sessionSeconds\<close>, and 0 when no session time has elapsed;
  the rate is pushed into the window of capacity 100, which drops its oldest value when
  full; the jitter is the population standard deviation of the window after the push;
  afterwards the pending bytes are 0 and \<^verbatim>\<open>g_lastPacketTime\<close> is the arrival time.
\<close>

theorem computed_tick_formulas:
  assumes "\<not> g_isFirstPacket st"
    and "elapsed_us = duration_cast_us (now - g_lastPacketTime st)"
    and "MIN_CALC_INTERVAL_US \<le> elapsed_us"
    and "session_us = duration_cast_us (now - g_sessionStartTime st)"
    and "pendingBytes = g_accumulatedBytes st + real (unat n)"
    and "ProcessTrafficCore n now st = (res, st')"
  shows "MIN_CALC_INTERVAL_US = 100000
    \<and> (\<exists>snap. res = ResultObject snap
        \<and> instantKbps snap = (pendingBytes * 8 / 1024) / (real_of_int elapsed_us / 1000000)
        \<and> totalBytes snap = g_totalBytes st + real (unat n)
        \<and> avgKbps snap = (if 0 < session_us
                          then (totalBytes snap * 8 / 1024) / (real_of_int session_us / 1000000)
                          else 0)
        \<and> g_speedWindow st' = window_push (g_speedWindow st) (instantKbps snap)
        \<and> jitter snap = population_stddev (g_speedWindow st'))
    \<and> (length (g_speedWindow st) \<le> 100 \<longrightarrow> length (g_speedWindow st') \<le> 100)
    \<and> g_accumulatedBytes st' = 0
    \<and> g_lastPacketTime st' = now"
proof -
  let ?st = "st\<lparr> g_totalBytes := g_totalBytes st + real (unat n),
                  g_accumulatedBytes := g_accumulatedBytes st + real (unat n) \<rparr>"
  define instant where "instant = (pendingBytes * 8 / 1024) / (real_of_int elapsed_us / 1000000)"
  have tick: "computed_tick now elapsed_us ?st = (res, st')"
    using assms(1,2,3,6) by (simp add: ProcessTrafficCore_def Let_def)
  have i: "(g_accumulatedBytes ?st * 8 / (real_of_int elapsed_us / 1000000)) / 1024 = instant"
    by (simp add: instant_def assms(5))
  note f = tick [unfolded computed_tick_eq [OF i] Let_def]
  have w: "g_speedWindow st' = window_push (g_speedWindow st) instant"
    using f by (auto simp: window_push_def WINDOW_SIZE_def)
  have rest: "g_accumulatedBytes st' = 0" "g_lastPacketTime st' = now"
    using f by auto
  have ne: "g_speedWindow st' \<noteq> []" by (simp add: w window_push_def)
  have jit: "CalculateJitter (g_speedWindow st')
      (accumulate (g_speedWindow st') / real (length (g_speedWindow st')))
      = population_stddev (g_speedWindow st')"
    by (rule CalculateJitter_stddev [OF ne])
  have len: "length (g_speedWindow st) \<le> 100 \<longrightarrow> length (g_speedWindow st') \<le> 100"
    by (auto simp: w window_push_def)
  have res: "res = ResultObject \<lparr> instantKbps = instant, maxKbps = g_globalMax st',
      minKbps = (if g_globalMin st' < 0 then 0 else g_globalMin st'),
      avgKbps = (if 0 < session_us
                 then ((g_totalBytes st + real (unat n)) * 8 / 1024)
                      / (real_of_int session_us / 1000000)
                 else 0),
      jitter = population_stddev (g_speedWindow st'),
      totalBytes = g_totalBytes st + real (unat n) \<rparr>"
    unfolding jit [symmetric] using f by (auto simp: CreateResultObject_def assms(4))
  show ?thesis
    unfolding res using len rest w
    by (simp add: MIN_CALC_INTERVAL_US_def instant_def)
qed

text \<open>A tick one second after a tick of rate 0, with 2048 bytes pending and two seconds
  into the session: the rate is 16, the average 8, the window is 0, 16 and its deviation
  is 8.\<close>

theorem computed_tick_formulas_witness:
  "\<not> g_isFirstPacket
       \<lparr> g_speedWindow = [0], g_totalBytes = 0, g_lastPacketTime = 1000000000,
         g_isFirstPacket = False, g_accumulatedBytes = 0, g_globalMax = 0, g_globalAvgKbps = 0,
         g_globalMin = - 1, g_sessionStartTime = 0, g_sampleCount = 1 \<rparr>
   \<and> MIN_CALC_INTERVAL_US \<le> duration_cast_us (2000000000 - 1000000000)
   \<and> (\<exists>snap. fst (ProcessTrafficCore 2048 2000000000
         \<lparr> g_speedWindow = [0], g_totalBytes = 0, g_lastPacketTime = 1000000000,
           g_isFirstPacket = False, g_accumulatedBytes = 0, g_globalMax = 0,
           g_globalAvgKbps = 0, g_globalMin = - 1, g_sessionStartTime = 0,
           g_sampleCount = 1 \<rparr>) = ResultObject snap
        \<and> instantKbps snap = 16 \<and> avgKbps snap = 8 \<and> totalBytes snap = 2048
        \<and> jitter snap = population_stddev [0, 16])
   \<and> population_stddev [0, 16] = 8"
proof -
  let ?st = "\<lparr> g_speedWindow = [0], g_totalBytes = 0, g_lastPacketTime = 1000000000,
         g_isFirstPacket = False, g_accumulatedBytes = 0, g_globalMax = 0, g_globalAvgKbps = 0,
         g_globalMin = - 1, g_sessionStartTime = 0, g_sampleCount = 1 \<rparr>"
  let ?res = "fst (ProcessTrafficCore 2048 2000000000 ?st)"
  let ?st' = "snd (ProcessTrafficCore 2048 2000000000 ?st)"
  have h1: "\<not> g_isFirstPacket ?st" by simp
  have d: "duration_cast_us 1000000000 = 1000000" "duration_cast_us 2000000000 = 2000000"
    by (simp_all add: duration_cast_us_def)
  have h3: "MIN_CALC_INTERVAL_US \<le> duration_cast_us (2000000000 - g_lastPacketTime ?st)"
    by (simp add: d MIN_CALC_INTERVAL_US_def)
  have r: "ProcessTrafficCore 2048 2000000000 ?st = (?res, ?st')" by simp
  from computed_tick_formulas [OF h1 refl h3 refl refl r]
  obtain snap where s: "?res = ResultObject snap"
    and i: "instantKbps snap =
        ((g_accumulatedBytes ?st + real (unat (2048 :: size_t))) * 8 / 1024)
        / (real_of_int (duration_cast_us (2000000000 - g_lastPacketTime ?st)) / 1000000)"
    and t: "totalBytes snap = g_totalBytes ?st + real (unat (2048 :: size_t))"
    and a: "avgKbps snap =
        (if 0 < duration_cast_us (2000000000 - g_sessionStartTime ?st)
         then (totalBytes snap * 8 / 1024)
              / (real_of_int (duration_cast_us (2000000000 - g_sessionStartTime ?st)) / 1000000)
         else 0)"
    and w: "g_speedWindow ?st' = window_push (g_speedWindow ?st) (instantKbps snap)"
    and j: "jitter snap = population_stddev (g_speedWindow ?st')"
    by blast
  have i': "instantKbps snap = 16" using i by (simp add: d)
  have t': "totalBytes snap = 2048" using t by simp
  have a': "avgKbps snap = 8" using a by (simp add: d t')
  have j': "jitter snap = population_stddev [0, 16]"
    unfolding j w i' by (simp add: window_push_def)
  have sq: "sqrt 64 = 8"
    by (rule real_sqrt_unique) simp_all
  have sd: "population_stddev [0, 16] = 8"
    by (simp add: population_stddev_def mean_def sq)
  from s i' t' a' j' have "\<exists>snap. ?res = ResultObject snap
        \<and> instantKbps snap = 16 \<and> avgKbps snap = 8 \<and> totalBytes snap = 2048
        \<and> jitter snap = population_stddev [0, 16]"
    by blast
  with h1 h3 sd show ?thesis by (simp only: d simp_thms analyzer_state.simps)
qed

subsection \<open>The extremes\<close>

lemma sample_count_warm_up: "k < 5 \<Longrightarrow> \<not> 5 < sint (of_nat k + 1 :: 32 word)"
proof -
  assume "k < 5"
  then consider "k = 0" | "k = 1" | "k = 2" | "k = 3" | "k = 4" by linarith
  then show ?thesis by cases simp_all
qed

lemma sample_count_sixth: "5 < sint (of_nat 5 + 1 :: 32 word)"
  by simp

lemma ProcessTrafficCore_step:
  assumes acc: "0 \<le> g_accumulatedBytes st"
    and run: "ProcessTrafficCore n now st = (res, st')"
  shows "g_globalMax st \<le> g_globalMax st'"
    and "0 \<le> g_globalMin st \<longrightarrow> 0 \<le> g_globalMin st' \<and> g_globalMin st' \<le> g_globalMin st"
    and "g_sampleCount st' = g_sampleCount st + (if computes_tick now st then 1 else 0)"
    and "g_globalMin st' \<noteq> g_globalMin st \<longrightarrow>
           computes_tick now st \<and> 5 < sint (g_sampleCount st + 1)"
    and "computes_tick now st \<and> 5 < sint (g_sampleCount st + 1) \<longrightarrow> 0 \<le> g_globalMin st'"
    and "0 \<le> g_accumulatedBytes st'"
    and "\<not> g_isFirstPacket st'"
    and "g_isFirstPacket st \<longrightarrow> res = EmptyObject"
    and "\<not> g_isFirstPacket st \<longrightarrow>
           (\<exists>snap. res = ResultObject snap
              \<and> maxKbps snap = g_globalMax st'
              \<and> minKbps snap = (if g_globalMin st' < 0 then 0 else g_globalMin st'))"
proof -
  let ?st = "st\<lparr> g_totalBytes := g_totalBytes st + real (unat n),
                  g_accumulatedBytes := g_accumulatedBytes st + real (unat n) \<rparr>"
  let ?d = "duration_cast_us (now - g_lastPacketTime st)"
  define instant where "instant = (g_accumulatedBytes ?st * 8 / (real_of_int ?d / 1000000)) / 1024"
  have "0 \<le> real (unat n)" by (rule of_nat_0_le_iff)
  with acc have nn: "0 \<le> g_accumulatedBytes st + real (unat n)" by (rule add_nonneg_nonneg)
  then have acc': "0 \<le> g_accumulatedBytes ?st" by simp
  have nonneg: "0 \<le> instant" if "MIN_CALC_INTERVAL_US \<le> ?d"
  proof -
    have "0 < real_of_int ?d" using that by (simp add: MIN_CALC_INTERVAL_US_def)
    then show ?thesis
      unfolding instant_def using acc' by (intro divide_nonneg_nonneg mult_nonneg_nonneg) simp_all
  qed
  consider (first) "g_isFirstPacket st"
    | (debounce) "\<not> g_isFirstPacket st" "?d < MIN_CALC_INTERVAL_US"
    | (tick) "\<not> g_isFirstPacket st" "MIN_CALC_INTERVAL_US \<le> ?d"
    by linarith
  then have "g_globalMax st \<le> g_globalMax st'
    \<and> (0 \<le> g_globalMin st \<longrightarrow> 0 \<le> g_globalMin st' \<and> g_globalMin st' \<le> g_globalMin st)
    \<and> g_sampleCount st' = g_sampleCount st + (if computes_tick now st then 1 else 0)
    \<and> (g_globalMin st' \<noteq> g_globalMin st \<longrightarrow>
           computes_tick now st \<and> 5 < sint (g_sampleCount st + 1))
    \<and> (computes_tick now st \<and> 5 < sint (g_sampleCount st + 1) \<longrightarrow> 0 \<le> g_globalMin st')
    \<and> 0 \<le> g_accumulatedBytes st'
    \<and> \<not> g_isFirstPacket st'
    \<and> (g_isFirstPacket st \<longrightarrow> res = EmptyObject)
    \<and> (\<not> g_isFirstPacket st \<longrightarrow>
           (\<exists>snap. res = ResultObject snap
              \<and> maxKbps snap = g_globalMax st'
              \<and> minKbps snap = (if g_globalMin st' < 0 then 0 else g_globalMin st')))"
  proof cases
    case first
    then show ?thesis
      using run nn by (auto simp: ProcessTrafficCore_def computes_tick_def)
  next
    case debounce
    then show ?thesis
      using run nn
      by (auto simp: ProcessTrafficCore_def computes_tick_def debounced_result_def
          CreateResultObject_def Let_def)
  next
    case tick
    then have ct: "computes_tick now st" by (simp add: computes_tick_def)
    have "computed_tick now ?d ?st = (res, st')"
      using run tick by (simp add: ProcessTrafficCore_def Let_def)
    note f = this [unfolded computed_tick_eq [OF instant_def [symmetric]] Let_def]
    have mx: "g_globalMax st' = (if instant > g_globalMax st then instant else g_globalMax st)"
      and mn: "g_globalMin st' =
           (if sint (g_sampleCount st + 1) > 5 \<and> (g_globalMin st < 0 \<or> instant < g_globalMin st)
            then instant else g_globalMin st)"
      and sc: "g_sampleCount st' = g_sampleCount st + 1"
      and ac: "g_accumulatedBytes st' = 0"
      and fp: "g_isFirstPacket st' = g_isFirstPacket st"
      using f by auto
    have rs: "res = CreateResultObject instant (g_globalMax st')
           (if g_globalMin st' < 0 then 0 else g_globalMin st')
           (g_globalAvgKbps st')
           (CalculateJitter (g_speedWindow st')
              (accumulate (g_speedWindow st') / real (length (g_speedWindow st'))))
           (g_totalBytes ?st)"
      using f by auto
    show ?thesis
      using nonneg [OF tick(2)] ct tick(1)
      by (auto simp: mx mn sc ac fp rs CreateResultObject_def)
  qed
  then show "g_globalMax st \<le> g_globalMax st'"
    and "0 \<le> g_globalMin st \<longrightarrow> 0 \<le> g_globalMin st' \<and> g_globalMin st' \<le> g_globalMin st"
    and "g_sampleCount st' = g_sampleCount st + (if computes_tick now st then 1 else 0)"
    and "g_globalMin st' \<noteq> g_globalMin st \<longrightarrow>
           computes_tick now st \<and> 5 < sint (g_sampleCount st + 1)"
    and "computes_tick now st \<and> 5 < sint (g_sampleCount st + 1) \<longrightarrow> 0 \<le> g_globalMin st'"
    and "0 \<le> g_accumulatedBytes st'"
    and "\<not> g_isFirstPacket st'"
    and "g_isFirstPacket st \<longrightarrow> res = EmptyObject"
    and "\<not> g_isFirstPacket st \<longrightarrow>
           (\<exists>snap. res = ResultObject snap
              \<and> maxKbps snap = g_globalMax st'
              \<and> minKbps snap = (if g_globalMin st' < 0 then 0 else g_globalMin st'))"
    by blast+
qed

lemma run_events_snoc:
  "run_events st (evs @ [(now, n)]) = snd (ProcessTrafficCore n now (run_events st evs))"
  by (induction st evs rule: run_events.induct) simp_all

lemma ticks_computed_snoc:
  "ticks_computed st (evs @ [(now, n)]) =
     ticks_computed st evs + (if computes_tick now (run_events st evs) then 1 else 0)"
  by (induction st evs rule: run_events.induct) simp_all

lemma run_events_invariants:
  assumes "0 \<le> g_accumulatedBytes base" and "g_sampleCount base = 0"
  shows "0 \<le> g_accumulatedBytes (run_events base evs)
   \<and> g_sampleCount (run_events base evs) = of_nat (ticks_computed base evs)
   \<and> (6 \<le> ticks_computed base evs \<longrightarrow> 0 \<le> g_globalMin (run_events base evs))"
proof (induction evs rule: rev_induct)
  case Nil
  then show ?case using assms by simp
next
  case (snoc ev evs)
  obtain now n where ev: "ev = (now, n)" by (cases ev)
  let ?st = "run_events base evs"
  let ?k = "ticks_computed base evs"
  obtain res st' where r: "ProcessTrafficCore n now ?st = (res, st')"
    by (cases "ProcessTrafficCore n now ?st")
  from snoc.IH have inv: "0 \<le> g_accumulatedBytes ?st"
    and cnt: "g_sampleCount ?st = of_nat ?k"
    and ini: "6 \<le> ?k \<longrightarrow> 0 \<le> g_globalMin ?st"
    by simp_all
  note s = ProcessTrafficCore_step [OF inv r]
  have st': "run_events base (evs @ [ev]) = st'"
    by (simp add: ev run_events_snoc r)
  have k': "ticks_computed base (evs @ [ev]) = ?k + (if computes_tick now ?st then 1 else 0)"
    by (simp add: ev ticks_computed_snoc)
  have c: "g_sampleCount st' = of_nat (ticks_computed base (evs @ [ev]))"
    by (simp add: k' s(3) cnt)
  have m: "0 \<le> g_globalMin st'" if six: "6 \<le> ticks_computed base (evs @ [ev])"
  proof (cases "computes_tick now ?st")
    case True
    with six k' have "5 \<le> ?k" by simp
    then consider "?k = 5" | "6 \<le> ?k" by linarith
    then show ?thesis
    proof cases
      case 1
      then have "5 < sint (g_sampleCount ?st + 1)"
        using sample_count_sixth by (simp add: cnt)
      with True s(5) show ?thesis by blast
    next
      case 2
      with ini s(2) show ?thesis by blast
    qed
  next
    case False
    with six k' have "6 \<le> ?k" by simp
    moreover from False s(4) have "g_globalMin st' = g_globalMin ?st" by blast
    ultimately show ?thesis using ini by simp
  qed
  show ?case
    unfolding st' using s(6) c m by blast
qed

text \<open>
  C7. Take a session that runs from the load-time state or a reset state through any
  events, and two further calls in a row. The first call of a session returns the empty
  object; every other call returns a snapshot, whose \<open>maxKbps\<close> is the stored maximum
  and whose \<open>minKbps\<close> is 0 while the stored minimum is still the negative sentinel and
  the stored minimum otherwise. The stored maximum never decreases, so the \<open>maxKbps\<close> of
  a snapshot is at most that of the next. The stored minimum changes only in a call that
  computes a tick after at least five ticks were computed before it, that is from the
  sixth tick on, and such a call leaves it initialised; once initialised (not negative) it
  stays so and never grows, and the \<open>minKbps\<close> of the next snapshot is then at most that
  of this one.
\<close>

theorem extremes_monotone:
  assumes "0 \<le> g_accumulatedBytes base" and "g_sampleCount base = 0"
    and "st = run_events base evs"
    and "ProcessTrafficCore n now st = (res, st')"
    and "ProcessTrafficCore n2 now2 st' = (res2, st'')"
  shows "g_globalMax st \<le> g_globalMax st'
    \<and> (0 \<le> g_globalMin st \<longrightarrow> 0 \<le> g_globalMin st' \<and> g_globalMin st' \<le> g_globalMin st)
    \<and> (g_globalMin st' \<noteq> g_globalMin st \<longrightarrow> computes_tick now st \<and> 5 \<le> ticks_computed base evs)
    \<and> (computes_tick now st \<and> 5 \<le> ticks_computed base evs \<longrightarrow> 0 \<le> g_globalMin st')
    \<and> (g_isFirstPacket st \<longrightarrow> res = EmptyObject)
    \<and> (\<not> g_isFirstPacket st \<longrightarrow>
          (\<exists>snap. res = ResultObject snap
             \<and> maxKbps snap = g_globalMax st'
             \<and> minKbps snap = (if g_globalMin st' < 0 then 0 else g_globalMin st')))
    \<and> (\<exists>snap2. res2 = ResultObject snap2
          \<and> maxKbps snap2 = g_globalMax st''
          \<and> minKbps snap2 = (if g_globalMin st'' < 0 then 0 else g_globalMin st'')
          \<and> (\<forall>snap. res = ResultObject snap \<longrightarrow>
                maxKbps snap \<le> maxKbps snap2
                \<and> (0 \<le> g_globalMin st' \<longrightarrow> minKbps snap2 \<le> minKbps snap)))"
proof -
  let ?k = "ticks_computed base evs"
  have inv: "0 \<le> g_accumulatedBytes st"
    and cnt: "g_sampleCount st = of_nat ?k"
    and ini: "6 \<le> ?k \<longrightarrow> 0 \<le> g_globalMin st"
    using run_events_invariants [OF assms(1,2), of evs] assms(3) by simp_all
  note s = ProcessTrafficCore_step [OF inv assms(4)]
  note t = ProcessTrafficCore_step [OF s(6) assms(5)]
  have C: "g_globalMin st' \<noteq> g_globalMin st \<longrightarrow> computes_tick now st \<and> 5 \<le> ?k"
  proof
    assume "g_globalMin st' \<noteq> g_globalMin st"
    with s(4) have ct: "computes_tick now st" and w: "5 < sint (of_nat ?k + 1 :: 32 word)"
      by (simp_all add: cnt)
    from w sample_count_warm_up [of ?k] have "5 \<le> ?k" by (cases "?k < 5") simp_all
    with ct show "computes_tick now st \<and> 5 \<le> ?k" by simp
  qed
  have D: "computes_tick now st \<and> 5 \<le> ?k \<longrightarrow> 0 \<le> g_globalMin st'"
  proof
    assume a: "computes_tick now st \<and> 5 \<le> ?k"
    then consider "?k = 5" | "6 \<le> ?k" by linarith
    then show "0 \<le> g_globalMin st'"
    proof cases
      case 1
      then have "5 < sint (g_sampleCount st + 1)"
        using sample_count_sixth by (simp add: cnt)
      with a s(5) show ?thesis by blast
    next
      case 2
      with ini s(2) show ?thesis by blast
    qed
  qed
  from t(9) t(7) s(7) obtain snap2 where r2: "res2 = ResultObject snap2"
    and mx2: "maxKbps snap2 = g_globalMax st''"
    and mn2: "minKbps snap2 = (if g_globalMin st'' < 0 then 0 else g_globalMin st'')"
    by blast
  have G: "maxKbps snap \<le> maxKbps snap2
      \<and> (0 \<le> g_globalMin st' \<longrightarrow> minKbps snap2 \<le> minKbps snap)"
    if "res = ResultObject snap" for snap
  proof -
    from that s(8) have "\<not> g_isFirstPacket st" by auto
    with s(9) that have mx: "maxKbps snap = g_globalMax st'"
      and mn: "minKbps snap = (if g_globalMin st' < 0 then 0 else g_globalMin st')"
      by auto
    show ?thesis
      using t(1) t(2) by (auto simp: mx mn mx2 mn2)
  qed
  show ?thesis
    using s(1) s(2) C D s(8) s(9) r2 mx2 mn2 G by blast
qed

text \<open>The first call of a fresh session returns the empty object and the second reports
  the maximum 16 and the minimum 0. Six events one second apart compute five ticks and
  leave the minimum at the sentinel; the sixth tick, of rate 4, reports the minimum 4 and
  the seventh, of rate 2, reports 2, both with the maximum 16 of the first tick.\<close>

theorem extremes_monotone_witness:
  "0 \<le> g_accumulatedBytes initial_state \<and> g_sampleCount initial_state = 0
   \<and> g_isFirstPacket (run_events initial_state [])
   \<and> fst (ProcessTrafficCore 1024 0 (run_events initial_state [])) = EmptyObject
   \<and> (\<exists>snap. fst (ProcessTrafficCore 1024 1000000000
                 (snd (ProcessTrafficCore 1024 0 (run_events initial_state []))))
               = ResultObject snap
          \<and> maxKbps snap = 16 \<and> minKbps snap = 0)
   \<and> ticks_computed initial_state
        [(0, 1024), (1000000000, 1024), (2000000000, 1024), (3000000000, 1024),
         (4000000000, 1024), (5000000000, 1024)] = 5
   \<and> computes_tick 6000000000 (run_events initial_state
        [(0, 1024), (1000000000, 1024), (2000000000, 1024), (3000000000, 1024),
         (4000000000, 1024), (5000000000, 1024)])
   \<and> g_globalMin (run_events initial_state
        [(0, 1024), (1000000000, 1024), (2000000000, 1024), (3000000000, 1024),
         (4000000000, 1024), (5000000000, 1024)]) = - 1
   \<and> (\<exists>snap. fst (ProcessTrafficCore 512 6000000000 (run_events initial_state
        [(0, 1024), (1000000000, 1024), (2000000000, 1024), (3000000000, 1024),
         (4000000000, 1024), (5000000000, 1024)])) = ResultObject snap
          \<and> maxKbps snap = 16 \<and> minKbps snap = 4)
   \<and> (\<exists>snap. fst (ProcessTrafficCore 256 7000000000 (run_events initial_state
        [(0, 1024), (1000000000, 1024), (2000000000, 1024), (3000000000, 1024),
         (4000000000, 1024), (5000000000, 1024), (6000000000, 512)])) = ResultObject snap
          \<and> maxKbps snap = 16 \<and> minKbps snap = 2)"
proof -
  let ?evs = "[(0, 1024), (1000000000, 1024), (2000000000, 1024), (3000000000, 1024),
         (4000000000, 1024), (5000000000, 1024)] :: (time_point \<times> size_t) list"
  let ?evs' = "[(0, 1024), (1000000000, 1024), (2000000000, 1024), (3000000000, 1024),
         (4000000000, 1024), (5000000000, 1024), (6000000000, 512)] :: (time_point \<times> size_t) list"
  let ?S0 = "\<lparr> g_speedWindow = [], g_totalBytes = 1024,
       g_lastPacketTime = 0, g_isFirstPacket = False, g_accumulatedBytes = 1024,
       g_globalMax = 0, g_globalAvgKbps = 0, g_globalMin = - 1,
       g_sessionStartTime = 0, g_sampleCount = 0 \<rparr>"
  let ?S5 = "\<lparr> g_speedWindow = [16, 8, 8, 8, 8], g_totalBytes = 6144,
       g_lastPacketTime = 5000000000, g_isFirstPacket = False, g_accumulatedBytes = 0,
       g_globalMax = 16, g_globalAvgKbps = 48 / 5, g_globalMin = - 1,
       g_sessionStartTime = 0, g_sampleCount = 5 \<rparr>"
  let ?S6 = "\<lparr> g_speedWindow = [16, 8, 8, 8, 8, 4], g_totalBytes = 6656,
       g_lastPacketTime = 6000000000, g_isFirstPacket = False, g_accumulatedBytes = 0,
       g_globalMax = 16, g_globalAvgKbps = 26 / 3, g_globalMin = 4,
       g_sessionStartTime = 0, g_sampleCount = 6 \<rparr>"
  have h1: "0 \<le> g_accumulatedBytes initial_state" and h2: "g_sampleCount initial_state = 0"
    by (simp_all add: initial_state_def)
  have g0: "g_globalMin initial_state = - 1" "g_globalMax initial_state = 0"
    by (simp_all add: initial_state_def)
  have S0: "snd (ProcessTrafficCore 1024 0 initial_state) = ?S0"
    and f0: "g_isFirstPacket initial_state"
    by (simp_all add: ProcessTrafficCore_def initial_state_def)
  have S1: "g_globalMax (snd (ProcessTrafficCore 1024 1000000000 ?S0)) = 16"
    "g_globalMin (snd (ProcessTrafficCore 1024 1000000000 ?S0)) = - 1"
    by (simp_all add: engine_defs)
  have S5: "run_events initial_state ?evs = ?S5"
    by (simp add: engine_defs initial_state_def)
  have t5: "ticks_computed initial_state ?evs = 5"
    by (simp add: computes_tick_def engine_defs initial_state_def)
  have S6: "snd (ProcessTrafficCore 512 6000000000 ?S5) = ?S6"
    by (simp add: engine_defs)
  have "run_events initial_state ?evs' = run_events initial_state (?evs @ [(6000000000, 512)])"
    by simp
  then have S6': "run_events initial_state ?evs' = ?S6"
    by (simp only: run_events_snoc S5 S6)
  have S7: "g_globalMin (snd (ProcessTrafficCore 256 7000000000 ?S6)) = 2"
    "g_globalMax (snd (ProcessTrafficCore 256 7000000000 ?S6)) = 16"
    by (simp_all add: engine_defs)
  have ct: "computes_tick 6000000000 ?S5"
    by (simp add: computes_tick_def duration_cast_us_def MIN_CALC_INTERVAL_US_def)
  note a = extremes_monotone [where evs = "[]" and n = 1024 and now = 0
      and ?n2.0 = 1024 and ?now2.0 = 1000000000,
      OF h1 h2 refl prod.collapse [symmetric] prod.collapse [symmetric]]
  note b = extremes_monotone [where evs = ?evs and n = 512 and now = 6000000000
      and ?n2.0 = 256 and ?now2.0 = 7000000000,
      OF h1 h2 refl prod.collapse [symmetric] prod.collapse [symmetric]]
  note c = extremes_monotone [where evs = ?evs' and n = 256 and now = 7000000000
      and ?n2.0 = 0 and ?now2.0 = 8000000000,
      OF h1 h2 refl prod.collapse [symmetric] prod.collapse [symmetric]]
  have f0': "g_isFirstPacket (run_events initial_state [])"
    using f0 by simp
  from a f0' have A: "fst (ProcessTrafficCore 1024 0 (run_events initial_state [])) = EmptyObject"
    by blast
  let ?c1 = "ProcessTrafficCore 1024 1000000000
               (snd (ProcessTrafficCore 1024 0 (run_events initial_state [])))"
  from a have "\<exists>snap. fst ?c1 = ResultObject snap
      \<and> maxKbps snap = g_globalMax (snd ?c1)
      \<and> minKbps snap = (if g_globalMin (snd ?c1) < 0 then 0 else g_globalMin (snd ?c1))"
    by blast
  then have A2: "\<exists>snap. fst ?c1 = ResultObject snap \<and> maxKbps snap = 16 \<and> minKbps snap = 0"
    by (simp add: S0 S1)
  let ?c6 = "ProcessTrafficCore 512 6000000000 (run_events initial_state ?evs)"
  have "\<not> g_isFirstPacket (run_events initial_state ?evs)"
    by (simp only: S5 analyzer_state.simps simp_thms)
  with b have "\<exists>snap. fst ?c6 = ResultObject snap
      \<and> maxKbps snap = g_globalMax (snd ?c6)
      \<and> minKbps snap = (if g_globalMin (snd ?c6) < 0 then 0 else g_globalMin (snd ?c6))"
    by blast
  then have B: "\<exists>snap. fst ?c6 = ResultObject snap \<and> maxKbps snap = 16 \<and> minKbps snap = 4"
    unfolding S5 S6 by simp
  let ?c7 = "ProcessTrafficCore 256 7000000000 (run_events initial_state ?evs')"
  have "\<not> g_isFirstPacket (run_events initial_state ?evs')"
    by (simp only: S6' analyzer_state.simps simp_thms)
  with c have "\<exists>snap. fst ?c7 = ResultObject snap
      \<and> maxKbps snap = g_globalMax (snd ?c7)
      \<and> minKbps snap = (if g_globalMin (snd ?c7) < 0 then 0 else g_globalMin (snd ?c7))"
    by blast
  then have C: "\<exists>snap. fst ?c7 = ResultObject snap \<and> maxKbps snap = 16 \<and> minKbps snap = 2"
    unfolding S6' S7 by simp
  have m5: "g_globalMin (run_events initial_state ?evs) = - 1"
    by (simp only: S5 analyzer_state.simps)
  have ct': "computes_tick 6000000000 (run_events initial_state ?evs)"
    using ct by (simp only: S5)
  from h1 h2 f0' A A2 t5 ct' m5 B C show ?thesis
    by (intro conjI)
qed

end
